theory Spec2Isabelle
  imports Main "HOL-Library.Word" "HOL-Library.Sublist"
begin

unbundle bit_operations_syntax

section \<open>The data store's documents\<close>

text \<open>
  Modelled from the spec: package \<open>datastore\<close> is not among the sources. Its types are
  records whose fields are the results of the accessor methods that \<open>manifest.go\<close>
  calls: a resource definition has a composite key (group, version, kind) and a name; a
  release has a name, a version and a list of owned resource-definition keys. The two
  accessors that return an \<open>error\<close> in the source keep that possibility.
\<close>

datatype CRDKey = CRDKey (key_group: string) (key_version: string) (key_kind: string)

datatype parse_error = ParseError string

record CustomResourceDefinition =
  crd_Key :: CRDKey
  crd_GetName :: string
  crd_doc :: string

record ClusterServiceVersion =
  csv_GetName :: string
  csv_GetVersion :: "parse_error + string"
  csv_GetCustomResourceDefintions :: "parse_error + (CRDKey list \<times> CRDKey list)"
  csv_doc :: string

record SingleOperatorManifest =
  GetPackageID :: string
  Package :: string
  ClusterServiceVersions :: "ClusterServiceVersion list"
  CustomResourceDefinitions :: "CustomResourceDefinition list"

text \<open>The values handed to \<open>createYAML\<close> as \<open>interface{}\<close>.\<close>

datatype obj =
    PackageObj string
  | CSVObj ClusterServiceVersion
  | CRDObj CustomResourceDefinition

section \<open>Path strings: \<open>filepath.Join\<close>\<close>

text \<open>
  Go's \<open>filepath.Join\<close> on Unix: empty leading elements are skipped, the rest is joined
  with the separator and passed to \<open>filepath.Clean\<close>; if every element is empty the
  result is the empty string. \<open>Clean\<close> drops empty and \<open>.\<close> elements, lets \<open>..\<close>
  cancel the element before it, drops \<open>..\<close> at the start of a rooted path and keeps it
  at the start of a relative one; the empty result is \<open>.\<close>.
\<close>

fun split_sep :: "string \<Rightarrow> string list" where
  "split_sep [] = [[]]"
| "split_sep (c # cs) =
     (if c = CHR ''/'' then [] # split_sep cs
      else (case split_sep cs of [] \<Rightarrow> [[c]] | x # xs \<Rightarrow> (c # x) # xs))"

fun join_sep :: "string list \<Rightarrow> string" where
  "join_sep [] = []"
| "join_sep [x] = x"
| "join_sep (x # y # ys) = x @ ''/'' @ join_sep (y # ys)"

definition clean_step :: "bool \<Rightarrow> string list \<Rightarrow> string \<Rightarrow> string list" where
  "clean_step rooted out c =
     (if c = [] \<or> c = ''.'' then out
      else if c = ''..'' then
        (if out \<noteq> [] \<and> last out \<noteq> ''..'' then butlast out
         else if rooted then out
         else out @ [''..''])
      else out @ [c])"

definition Clean :: "string \<Rightarrow> string" where
  "Clean s =
     (if s = [] then ''.''
      else
        (let rooted = (hd s = CHR ''/'');
             body = join_sep (foldl (clean_step rooted) [] (split_sep s))
         in if rooted then ''/'' @ body
            else if body = [] then ''.'' else body))"

definition Join :: "string \<Rightarrow> string \<Rightarrow> string" where
  "Join a b =
     (if a \<noteq> [] then Clean (a @ ''/'' @ b)
      else if b \<noteq> [] then Clean b
      else [])"

section \<open>The file system\<close>

text \<open>
  The operating system is not part of the repository. Its model: a file system is a
  finite table from absolute paths (lists of names, the root is the empty list) to
  nodes; a node is a directory or a regular file and carries its permission bits. The
  process has a working directory and a umask. A path string names the absolute path
  reached by walking its elements from the root or from the working directory.
  Permissions are checked for the owner only and only through the write bit: creating
  or removing an entry needs the write bit of the directory that holds it, overwriting
  a file needs the write bit of the file. Symbolic links, read and search bits, other
  users and failures of the device are outside the model.
\<close>

type_synonym mode = "32 word"
type_synonym path = "string list"

datatype node = Dir mode | File mode string

type_synonym filesystem = "(path \<times> node) list"

datatype errno = ENOENT | EEXIST | ENOTDIR | EISDIR | EACCES

text \<open>
  Besides the file system, the world keeps a trace of the builder's completed leaf
  operations (a directory created by \<open>createDir\<close>, an object written by
  \<open>createYAML\<close>), in the order in which they completed.
\<close>

datatype event = CreatedDir string | CreatedYAML obj string

record world =
  fs :: filesystem
  cwd :: path
  umask :: mode
  trace :: "event list"

definition walk :: "path \<Rightarrow> string \<Rightarrow> path" where
  "walk p c =
     (if c = [] \<or> c = ''.'' then p
      else if c = ''..'' then butlast p
      else p @ [c])"

definition resolve :: "path \<Rightarrow> string \<Rightarrow> path option" where
  "resolve wd s =
     (if s = [] then None
      else Some (foldl walk (if hd s = CHR ''/'' then [] else wd) (split_sep s)))"

definition owner_w :: "mode \<Rightarrow> bool" where
  "owner_w m = (m AND 128 \<noteq> 0)"

definition fs_put :: "path \<Rightarrow> node \<Rightarrow> filesystem \<Rightarrow> filesystem" where
  "fs_put p n t = (p, n) # filter (\<lambda>e. fst e \<noteq> p) t"

text \<open>\<open>os.Mkdir(name, perm)\<close>: the new directory gets \<open>perm\<close> less the umask.\<close>

definition os_Mkdir :: "string \<Rightarrow> mode \<Rightarrow> world \<Rightarrow> errno option \<times> world" where
  "os_Mkdir name perm w =
     (case resolve (cwd w) name of
        None \<Rightarrow> (Some ENOENT, w)
      | Some p \<Rightarrow>
          if p = [] then (Some EEXIST, w)
          else
            (case map_of (fs w) (butlast p) of
               None \<Rightarrow> (Some ENOENT, w)
             | Some (File fm d) \<Rightarrow> (Some ENOTDIR, w)
             | Some (Dir dm) \<Rightarrow>
                 if map_of (fs w) p \<noteq> None then (Some EEXIST, w)
                 else if \<not> owner_w dm then (Some EACCES, w)
                 else (None, w\<lparr>fs := fs_put p (Dir (perm AND NOT (umask w))) (fs w)\<rparr>)))"

text \<open>
  \<open>ioutil.WriteFile(name, data, perm)\<close> opens with create and truncate: a new file
  gets \<open>perm\<close> less the umask, an existing file keeps its mode and gets the new
  contents.
\<close>

definition ioutil_WriteFile :: "string \<Rightarrow> string \<Rightarrow> mode \<Rightarrow> world \<Rightarrow> errno option \<times> world" where
  "ioutil_WriteFile name data perm w =
     (case resolve (cwd w) name of
        None \<Rightarrow> (Some ENOENT, w)
      | Some p \<Rightarrow>
          if p = [] then (Some EISDIR, w)
          else
            (case map_of (fs w) (butlast p) of
               None \<Rightarrow> (Some ENOENT, w)
             | Some (File fm d) \<Rightarrow> (Some ENOTDIR, w)
             | Some (Dir dm) \<Rightarrow>
                 (case map_of (fs w) p of
                    Some (Dir m) \<Rightarrow> (Some EISDIR, w)
                  | Some (File m old) \<Rightarrow>
                      if owner_w m then (None, w\<lparr>fs := fs_put p (File m data) (fs w)\<rparr>)
                      else (Some EACCES, w)
                  | None \<Rightarrow>
                      if owner_w dm
                      then (None, w\<lparr>fs := fs_put p (File (perm AND NOT (umask w)) data) (fs w)\<rparr>)
                      else (Some EACCES, w))))"

text \<open>
  \<open>os.RemoveAll(path)\<close> removes what it can and returns the first error it meets; a
  path that does not exist, and the empty string, are no error. An entry can be
  removed when the directory holding it is writable and everything below the entry
  can be removed. The error of a refused removal is \<open>EACCES\<close>.
\<close>

definition parent_writable :: "filesystem \<Rightarrow> path \<Rightarrow> bool" where
  "parent_writable t q =
     (q \<noteq> [] \<and> (case map_of t (butlast q) of Some (Dir m) \<Rightarrow> owner_w m | _ \<Rightarrow> False))"



section \<open>The manifest builder (\<open>manifest.go\<close>)\<close>

text \<open>
  Go's \<open>error\<close> values are built with \<open>fmt.Errorf\<close>; each constructor stands for one
  format string and carries the values printed into it:
  \<^item> \<open>Upstream\<close>: an error returned by an accessor of the data store, passed on as it is;
  \<^item> \<open>MissingVersion\<close>: \<open>Unable to create bundle dir as CSV is missing version\<close>;
  \<^item> \<open>OwnedCRDNotFound k n\<close>: \<open>Owned CRD k for CSV n not found\<close>;
  \<^item> \<open>CreateDirError e d\<close>: \<open>Error e creating d directory\<close>;
  \<^item> \<open>MarshalError o e\<close>: \<open>Error o marshaling e into YAML\<close>;
  \<^item> \<open>CreateFileError e f\<close>: \<open>Error e creating f file\<close>.
\<close>

datatype error =
    Upstream parse_error
  | MissingVersion
  | OwnedCRDNotFound CRDKey string
  | CreateDirError errno string
  | MarshalError obj string
  | CreateFileError errno string

record manifest =
  singleManifest :: SingleOperatorManifest
  registryDir :: string
  manifestDir :: string
  versionDir :: string

definition NewManifest :: "SingleOperatorManifest \<Rightarrow> string \<Rightarrow> manifest" where
  "NewManifest sm dir =
     \<lparr>singleManifest = sm, registryDir = dir, manifestDir = [], versionDir = []\<rparr>"

text \<open>Mode \<open>0700\<close> is 448, mode \<open>0666\<close> is 438.\<close>

definition createDir :: "string \<Rightarrow> world \<Rightarrow> error option \<times> world" where
  "createDir dir w =
     (case os_Mkdir dir 448 w of
        (Some e, w') \<Rightarrow> (Some (CreateDirError e dir), w')
      | (None, w') \<Rightarrow> (None, w'\<lparr>trace := trace w' @ [CreatedDir dir]\<rparr>))"

text \<open>
  \<open>yaml.Marshal\<close> belongs to a library; it is the parameter \<open>marshal\<close>, which returns
  the text or the library's error message.
\<close>

definition createYAML ::
  "(obj \<Rightarrow> string + string) \<Rightarrow> obj \<Rightarrow> string \<Rightarrow> world \<Rightarrow> error option \<times> world" where
  "createYAML marshal ob file w =
     (case marshal ob of
        Inl err \<Rightarrow> (Some (MarshalError ob err), w)
      | Inr raw \<Rightarrow>
          (case ioutil_WriteFile file raw 438 w of
             (Some e, w') \<Rightarrow> (Some (CreateFileError e file), w')
           | (None, w') \<Rightarrow> (None, w'\<lparr>trace := trace w' @ [CreatedYAML ob file]\<rparr>)))"

definition createManifestDir :: "manifest \<Rightarrow> world \<Rightarrow> error option \<times> manifest \<times> world" where
  "createManifestDir b w =
     (let b' = b\<lparr>manifestDir := Join (registryDir b) (GetPackageID (singleManifest b))\<rparr>
      in case createDir (manifestDir b') w of (r, w') \<Rightarrow> (r, b', w'))"

definition createPackageYAML ::
  "(obj \<Rightarrow> string + string) \<Rightarrow> manifest \<Rightarrow> world \<Rightarrow> error option \<times> world" where
  "createPackageYAML marshal b w =
     createYAML marshal (PackageObj (Package (singleManifest b)))
       (Join (manifestDir b) (GetPackageID (singleManifest b) @ ''.package.yaml'')) w"

definition createBundleDir ::
  "manifest \<Rightarrow> ClusterServiceVersion \<Rightarrow> world \<Rightarrow> (string \<times> error option) \<times> world" where
  "createBundleDir b csv w =
     (case csv_GetVersion csv of
        Inl err \<Rightarrow> (([], Some (Upstream err)), w)
      | Inr version \<Rightarrow>
          if version = [] then (([], Some MissingVersion), w)
          else
            (let bundleDir = Join (manifestDir b) version
             in case createDir bundleDir w of (r, w') \<Rightarrow> ((bundleDir, r), w')))"

definition createCRDYAML ::
  "(obj \<Rightarrow> string + string) \<Rightarrow> CustomResourceDefinition \<Rightarrow> string \<Rightarrow> world
     \<Rightarrow> error option \<times> world" where
  "createCRDYAML marshal crd bundleDir w =
     createYAML marshal (CRDObj crd) (Join bundleDir (crd_GetName crd @ ''.crd.yaml'')) w"

text \<open>The first loop of \<open>createCRDYAMLs\<close>: \<open>crdMap[crd.Key()] = crd\<close> for each definition in turn.\<close>

definition build_crdMap :: "CustomResourceDefinition list \<Rightarrow> (CRDKey \<rightharpoonup> CustomResourceDefinition)" where
  "build_crdMap crds = foldl (\<lambda>m crd. m(crd_Key crd \<mapsto> crd)) Map.empty crds"

text \<open>The second loop of \<open>createCRDYAMLs\<close>, over the owned keys.\<close>

fun createCRDYAMLs_loop ::
  "(obj \<Rightarrow> string + string) \<Rightarrow> (CRDKey \<rightharpoonup> CustomResourceDefinition) \<Rightarrow> ClusterServiceVersion
     \<Rightarrow> string \<Rightarrow> CRDKey list \<Rightarrow> world \<Rightarrow> error option \<times> world" where
  "createCRDYAMLs_loop marshal crdMap csv bundleDir [] w = (None, w)"
| "createCRDYAMLs_loop marshal crdMap csv bundleDir (ownedCRDKey # rest) w =
     (case crdMap ownedCRDKey of
        None \<Rightarrow> (Some (OwnedCRDNotFound ownedCRDKey (csv_GetName csv)), w)
      | Some crd \<Rightarrow>
          (case createCRDYAML marshal crd bundleDir w of
             (Some e, w') \<Rightarrow> (Some e, w')
           | (None, w') \<Rightarrow> createCRDYAMLs_loop marshal crdMap csv bundleDir rest w'))"

definition createCRDYAMLs ::
  "(obj \<Rightarrow> string + string) \<Rightarrow> manifest \<Rightarrow> ClusterServiceVersion \<Rightarrow> string \<Rightarrow> world
     \<Rightarrow> error option \<times> world" where
  "createCRDYAMLs marshal b csv bundleDir w =
     (case csv_GetCustomResourceDefintions csv of
        Inl err \<Rightarrow> (Some (Upstream err), w)
      | Inr (ownedCRDKeys, required) \<Rightarrow>
          createCRDYAMLs_loop marshal
            (build_crdMap (CustomResourceDefinitions (singleManifest b)))
            csv bundleDir ownedCRDKeys w)"

definition createCSVYAML ::
  "(obj \<Rightarrow> string + string) \<Rightarrow> ClusterServiceVersion \<Rightarrow> string \<Rightarrow> world
     \<Rightarrow> error option \<times> world" where
  "createCSVYAML marshal csv bundleDir w =
     createYAML marshal (CSVObj csv) (Join bundleDir (csv_GetName csv @ ''.csv.yaml'')) w"

definition createBundle ::
  "(obj \<Rightarrow> string + string) \<Rightarrow> manifest \<Rightarrow> ClusterServiceVersion \<Rightarrow> world
     \<Rightarrow> error option \<times> world" where
  "createBundle marshal b csv w =
     (case createBundleDir b csv w of
        ((bundleDir, Some e), w1) \<Rightarrow> (Some e, w1)
      | ((bundleDir, None), w1) \<Rightarrow>
          (case createCRDYAMLs marshal b csv bundleDir w1 of
             (Some e, w2) \<Rightarrow> (Some e, w2)
           | (None, w2) \<Rightarrow> createCSVYAML marshal csv bundleDir w2))"

text \<open>
  The loop of \<open>createBundles\<close> calls \<open>b.createBundle(csv)\<close> as a statement: the result
  is dropped, and the named result \<open>err\<close> of \<open>createBundles\<close> is never assigned.
\<close>

fun createBundles_loop ::
  "(obj \<Rightarrow> string + string) \<Rightarrow> manifest \<Rightarrow> ClusterServiceVersion list \<Rightarrow> world \<Rightarrow> world" where
  "createBundles_loop marshal b [] w = w"
| "createBundles_loop marshal b (csv # rest) w =
     createBundles_loop marshal b rest (snd (createBundle marshal b csv w))"

definition createBundles ::
  "(obj \<Rightarrow> string + string) \<Rightarrow> manifest \<Rightarrow> world \<Rightarrow> error option \<times> world" where
  "createBundles marshal b w =
     (None, createBundles_loop marshal b (ClusterServiceVersions (singleManifest b)) w)"

definition Create ::
  "(obj \<Rightarrow> string + string) \<Rightarrow> manifest \<Rightarrow> world \<Rightarrow> error option \<times> manifest \<times> world" where
  "Create marshal b w =
     (case createManifestDir b w of
        (Some e, b1, w1) \<Rightarrow> (Some e, b1, w1)
      | (None, b1, w1) \<Rightarrow>
          (case createPackageYAML marshal b1 w1 of
             (Some e, w2) \<Rightarrow> (Some e, b1, w2)
           | (None, w2) \<Rightarrow>
               (case createBundles marshal b1 w2 of
                  (Some e, w3) \<Rightarrow> (Some e, b1, w3)
                | (None, w3) \<Rightarrow> (None, b1, w3))))"


section \<open>Well-formed file systems and growth\<close>


text \<open>
  \<open>grows w w'\<close>: what the builder's creating operations can do to the world. The
  working directory and the umask stay, the trace is extended, a directory stays as it
  is, a file stays a file of the same mode, and every new entry lies in a writable
  directory.
\<close>

definition grows :: "world \<Rightarrow> world \<Rightarrow> bool" where
  "grows w w' =
     (cwd w' = cwd w \<and> umask w' = umask w \<and> (\<exists>evs. trace w' = trace w @ evs) \<and>
      (\<forall>q m. map_of (fs w) q = Some (Dir m) \<longrightarrow> map_of (fs w') q = Some (Dir m)) \<and>
      (\<forall>q m d. map_of (fs w) q = Some (File m d) \<longrightarrow> (\<exists>d'. map_of (fs w') q = Some (File m d'))) \<and>
      (\<forall>q. map_of (fs w') q \<noteq> None \<longrightarrow> map_of (fs w) q \<noteq> None \<or> parent_writable (fs w') q))"

text \<open>
  A simple name is one path element: not empty, not \<open>.\<close> or \<open>..\<close>, without a
  separator. \<open>clean_inv\<close> is what holds of the elements \<open>Clean\<close> has kept so far.
\<close>

definition simple_name :: "string \<Rightarrow> bool" where
  "simple_name n = (n \<noteq> [] \<and> n \<noteq> ''.'' \<and> n \<noteq> ''..'' \<and> CHR ''/'' \<notin> set n)"

definition clean_inv :: "bool \<Rightarrow> string list \<Rightarrow> bool" where
  "clean_inv rooted out =
     ((\<forall>c \<in> set out. c \<noteq> [] \<and> c \<noteq> ''.'' \<and> CHR ''/'' \<notin> set c) \<and> (rooted \<longrightarrow> ''..'' \<notin> set out))"

section \<open>Concrete packages and worlds\<close>

text \<open>
  The package of the spec's scenario: \<open>etcd\<close> with release \<open>0.6.1\<close>, which owns the
  definition \<open>etcdclusters.etcd.database.coreos.com\<close>. Mode \<open>0755\<close> is 493, mode
  \<open>0555\<close> is 365, umask \<open>022\<close> is 18.
\<close>

definition doc_marshal :: "obj \<Rightarrow> string + string" where
  "doc_marshal ob =
     (case ob of PackageObj s \<Rightarrow> Inr s | CSVObj c \<Rightarrow> Inr (csv_doc c) | CRDObj c \<Rightarrow> Inr (crd_doc c))"

definition key_clusters :: CRDKey where
  "key_clusters = CRDKey ''etcd.database.coreos.com'' ''v1beta2'' ''EtcdCluster''"

definition key_backups :: CRDKey where
  "key_backups = CRDKey ''etcd.database.coreos.com'' ''v1beta2'' ''EtcdBackup''"

definition crd_clusters :: CustomResourceDefinition where
  "crd_clusters =
     \<lparr>crd_Key = key_clusters, crd_GetName = ''etcdclusters.etcd.database.coreos.com'',
      crd_doc = ''kind: CustomResourceDefinition''\<rparr>"


definition csv_061 :: ClusterServiceVersion where
  "csv_061 =
     \<lparr>csv_GetName = ''etcdoperator.v0.6.1'', csv_GetVersion = Inr ''0.6.1'',
      csv_GetCustomResourceDefintions = Inr ([key_clusters], []),
      csv_doc = ''kind: ClusterServiceVersion''\<rparr>"

definition csv_061_again :: ClusterServiceVersion where
  "csv_061_again = csv_061\<lparr>csv_GetName := ''etcdoperator.v0.6.1-rebuild''\<rparr>"

definition csv_noversion :: ClusterServiceVersion where
  "csv_noversion = csv_061\<lparr>csv_GetName := ''etcdoperator.next'', csv_GetVersion := Inr []\<rparr>"

definition csv_dangling :: ClusterServiceVersion where
  "csv_dangling =
     csv_061\<lparr>csv_GetName := ''etcdoperator.v0.9.0'', csv_GetVersion := Inr ''0.9.0'',
       csv_GetCustomResourceDefintions := Inr ([key_backups], [])\<rparr>"

definition csv_dangling_noversion :: ClusterServiceVersion where
  "csv_dangling_noversion = csv_dangling\<lparr>csv_GetVersion := Inr []\<rparr>"

definition csv_unparsed :: ClusterServiceVersion where
  "csv_unparsed = csv_061\<lparr>csv_GetVersion := Inl (ParseError ''unexpected end of JSON input'')\<rparr>"

definition etcd :: "ClusterServiceVersion list \<Rightarrow> SingleOperatorManifest" where
  "etcd csvs =
     \<lparr>GetPackageID = ''etcd'', Package = ''packageName: etcd'',
      ClusterServiceVersions = csvs, CustomResourceDefinitions = [crd_clusters]\<rparr>"

definition prometheus :: SingleOperatorManifest where
  "prometheus = (etcd [csv_061])\<lparr>GetPackageID := ''prometheus''\<rparr>"

definition world0 :: world where
  "world0 = \<lparr>fs = [([], Dir 493), ([''tmp''], Dir 493)], cwd = [], umask = 18, trace = []\<rparr>"

definition world_umask0 :: world where
  "world_umask0 = world0\<lparr>umask := 0\<rparr>"

definition world_ro :: world where
  "world_ro =
     \<lparr>fs = [([], Dir 493), ([''ro''], Dir 365), ([''ro'', ''etcd''], Dir 493)],
      cwd = [], umask = 18, trace = []\<rparr>"

text \<open>
  The builder after \<open>createManifestDir\<close>, and the world after \<open>Create\<close> made the root
  and the package descriptor (a package without releases).
\<close>

definition builder_etcd :: "ClusterServiceVersion list \<Rightarrow> manifest" where
  "builder_etcd csvs = (NewManifest (etcd csvs) ''/tmp'')\<lparr>manifestDir := ''/tmp/etcd''\<rparr>"

definition world_root :: world where
  "world_root = snd (snd (Create doc_marshal (NewManifest (etcd []) ''/tmp'') world0))"

section \<open>Cleaning a path does not change what it names\<close>

lemma split_sep_nonempty: "split_sep s \<noteq> []"
  by (induction s) (auto split: list.splits)

lemma split_sep_no_sep: "CHR ''/'' \<notin> set n \<Longrightarrow> split_sep n = [n]"
  by (induction n) auto

lemma split_sep_append: "split_sep (a @ CHR ''/'' # b) = split_sep a @ split_sep b"
proof (induction a)
  case Nil
  then show ?case by simp
next
  case (Cons c a)
  obtain x xs where x: "split_sep a = x # xs"
    using split_sep_nonempty [of a] by (cases "split_sep a") auto
  with Cons show ?case by simp
qed

lemma split_sep_comps: "c \<in> set (split_sep s) \<Longrightarrow> CHR ''/'' \<notin> set c"
proof (induction s arbitrary: c)
  case Nil
  then show ?case by simp
next
  case (Cons a s)
  obtain x xs where x: "split_sep s = x # xs"
    using split_sep_nonempty [of s] by (cases "split_sep s") auto
  with Cons show ?case by (auto split: if_splits)
qed

lemma split_join:
  "out \<noteq> [] \<Longrightarrow> \<forall>c \<in> set out. CHR ''/'' \<notin> set c \<Longrightarrow> split_sep (join_sep out) = out"
proof (induction out rule: join_sep.induct)
  case 1
  then show ?case by simp
next
  case (2 x)
  then show ?case by (simp add: split_sep_no_sep)
next
  case (3 x y ys)
  then have "split_sep (join_sep (y # ys)) = y # ys" by simp
  with 3 show ?case by (simp add: split_sep_append split_sep_no_sep)
qed

lemma join_sep_empty:
  "\<forall>c \<in> set out. c \<noteq> [] \<Longrightarrow> join_sep out = [] \<Longrightarrow> out = []"
  by (induction out rule: join_sep.induct) auto

lemma hd_join_sep:
  "out \<noteq> [] \<Longrightarrow> \<forall>c \<in> set out. c \<noteq> [] \<and> CHR ''/'' \<notin> set c \<Longrightarrow> hd (join_sep out) \<noteq> CHR ''/''"
proof (induction out rule: join_sep.induct)
  case 1
  then show ?case by simp
next
  case (2 x)
  then show ?case by (cases x) auto
next
  case (3 x y ys)
  then show ?case by (cases x) auto
qed

lemma foldl_walk_snoc: "foldl walk base (xs @ [c]) = walk (foldl walk base xs) c"
  by simp

lemma clean_step_walk:
  assumes inv: "clean_inv rooted out" and base: "rooted \<longrightarrow> base = []" and c: "CHR ''/'' \<notin> set c"
  shows "foldl walk base (clean_step rooted out c) = walk (foldl walk base out) c \<and>
         clean_inv rooted (clean_step rooted out c)"
proof -
  consider (skip) "c = [] \<or> c = ''.''" | (up) "c = ''..''" | (name) "c \<noteq> []" "c \<noteq> ''.''" "c \<noteq> ''..''"
    by blast
  then show ?thesis
  proof cases
    case skip
    with inv show ?thesis by (auto simp: clean_step_def walk_def)
  next
    case name
    with inv c show ?thesis by (auto simp: clean_step_def walk_def clean_inv_def)
  next
    case up
    show ?thesis
    proof (cases "out \<noteq> [] \<and> last out \<noteq> ''..''")
      case True
      then obtain ys y where o: "out = ys @ [y]" "y \<noteq> ''..''"
        by (metis append_butlast_last_id)
      with inv have y: "y \<noteq> []" "y \<noteq> ''.''" by (auto simp: clean_inv_def)
      have "clean_step rooted out c = ys" using up True o by (simp add: clean_step_def)
      moreover have "walk (foldl walk base out) c = foldl walk base ys"
        using up o y by (simp add: walk_def)
      moreover have "clean_inv rooted ys" using inv o by (auto simp: clean_inv_def)
      ultimately show ?thesis by simp
    next
      case False
      show ?thesis
      proof (cases rooted)
        case True
        with inv False have "out = []"
          by (cases out rule: rev_cases) (auto simp: clean_inv_def)
        with True base up inv show ?thesis by (simp add: clean_step_def walk_def)
      next
        case rf: False
        with False up have "clean_step rooted out c = out @ [''..'']"
          by (auto simp: clean_step_def)
        with up inv rf show ?thesis by (auto simp: clean_inv_def)
      qed
    qed
  qed
qed

lemma clean_fold_walk:
  assumes "clean_inv rooted acc" and "rooted \<longrightarrow> base = []" and "\<forall>c \<in> set cs. CHR ''/'' \<notin> set c"
  shows "foldl walk base (foldl (clean_step rooted) acc cs) = foldl walk (foldl walk base acc) cs \<and>
         clean_inv rooted (foldl (clean_step rooted) acc cs)"
  using assms
proof (induction cs arbitrary: acc)
  case Nil
  then show ?case by simp
next
  case (Cons c cs)
  from Cons.prems have c: "CHR ''/'' \<notin> set c" and cs: "\<forall>c \<in> set cs. CHR ''/'' \<notin> set c" by simp_all
  from clean_step_walk [OF Cons.prems(1,2) c] have
    s: "foldl walk base (clean_step rooted acc c) = walk (foldl walk base acc) c"
    and i: "clean_inv rooted (clean_step rooted acc c)" by simp_all
  from Cons.IH [OF i Cons.prems(2) cs] s show ?case by simp
qed

lemma resolve_Clean:
  assumes "s \<noteq> []"
  shows "resolve wd (Clean s) = resolve wd s"
proof -
  let ?rooted = "hd s = CHR ''/''"
  let ?base = "if ?rooted then [] else wd"
  let ?out = "foldl (clean_step ?rooted) [] (split_sep s)"
  have cs: "\<forall>c \<in> set (split_sep s). CHR ''/'' \<notin> set c" using split_sep_comps by blast
  have i0: "clean_inv ?rooted []" by (simp add: clean_inv_def)
  have b0: "?rooted \<longrightarrow> ?base = []" by simp
  from clean_fold_walk [OF i0 b0 cs] have
    w: "foldl walk ?base ?out = foldl walk ?base (split_sep s)" and inv: "clean_inv ?rooted ?out"
    by simp_all
  from inv have ne: "\<forall>c \<in> set ?out. c \<noteq> []" and ns: "\<forall>c \<in> set ?out. CHR ''/'' \<notin> set c"
    and both: "\<forall>c \<in> set ?out. c \<noteq> [] \<and> CHR ''/'' \<notin> set c"
    by (auto simp: clean_inv_def)
  have body: "foldl walk p (split_sep (join_sep ?out)) = foldl walk p ?out" for p
  proof (cases "?out = []")
    case True
    then show ?thesis by (simp add: walk_def)
  next
    case False
    from split_join [OF False ns] show ?thesis by simp
  qed
  have r: "resolve wd s = Some (foldl walk ?base (split_sep s))"
    using assms by (simp add: resolve_def)
  show ?thesis
  proof (cases ?rooted)
    case True
    then have c: "Clean s = CHR ''/'' # join_sep ?out"
      using assms by (simp add: Clean_def Let_def)
    have "resolve wd (Clean s) = Some (foldl walk [] (split_sep (join_sep ?out)))"
      unfolding c by (simp add: resolve_def walk_def)
    with body [of "[]"] w True r show ?thesis by simp
  next
    case False
    show ?thesis
    proof (cases "join_sep ?out = []")
      case True
      with False have c: "Clean s = ''.''" using assms by (simp add: Clean_def Let_def)
      from join_sep_empty [OF ne True] have "?out = []" .
      with w False have "foldl walk wd (split_sep s) = wd" by simp
      with r False show ?thesis unfolding c by (simp add: resolve_def walk_def)
    next
      case nb: False
      with False have c: "Clean s = join_sep ?out" using assms by (simp add: Clean_def Let_def)
      from nb have o: "?out \<noteq> []" by auto
      from hd_join_sep [OF o both] have h: "hd (join_sep ?out) \<noteq> CHR ''/''" .
      have "resolve wd (Clean s) = Some (foldl walk wd (split_sep (join_sep ?out)))"
        unfolding c using nb h by (simp add: resolve_def)
      with body [of wd] w False r show ?thesis by simp
    qed
  qed
qed

lemma walk_simple: "simple_name n \<Longrightarrow> walk p n = p @ [n]"
  by (simp add: simple_name_def walk_def)

lemma resolve_Join_simple:
  assumes a: "resolve wd a = Some d" and n: "simple_name n"
  shows "resolve wd (Join a n) = Some (d @ [n])"
proof -
  from a have ne: "a \<noteq> []" by (auto simp: resolve_def)
  then have j: "Join a n = Clean (a @ CHR ''/'' # n)" by (simp add: Join_def)
  have s: "split_sep (a @ CHR ''/'' # n) = split_sep a @ [n]"
    using n by (simp add: split_sep_append split_sep_no_sep simple_name_def)
  have h: "hd (a @ CHR ''/'' # n) = hd a" using ne by simp
  have "resolve wd (a @ CHR ''/'' # n) =
      Some (walk (foldl walk (if hd a = CHR ''/'' then [] else wd) (split_sep a)) n)"
    unfolding resolve_def h s by simp
  also have "\<dots> = Some (d @ [n])"
    using a ne n by (simp add: resolve_def walk_simple)
  finally show ?thesis unfolding j by (simp add: resolve_Clean)
qed

section \<open>The operating system's operations\<close>

lemma map_of_filter_key:
  "map_of (filter (\<lambda>e. P (fst e)) t) q = (if P q then map_of t q else None)"
  by (induction t) auto

lemma map_of_fs_put: "map_of (fs_put p n t) q = (if q = p then Some n else map_of t q)"
  using map_of_filter_key [where P = "\<lambda>k. k \<noteq> p" and t = t and q = q]
  by (simp add: fs_put_def)

lemma os_Mkdir_Some: "os_Mkdir name perm w = (Some e, w') \<Longrightarrow> w' = w"
  by (auto simp: os_Mkdir_def split: option.splits node.splits if_splits)

lemma os_Mkdir_None:
  assumes "os_Mkdir name perm w = (None, w')"
  shows "\<exists>p dm. resolve (cwd w) name = Some p \<and> p \<noteq> [] \<and>
           map_of (fs w) (butlast p) = Some (Dir dm) \<and> owner_w dm \<and> map_of (fs w) p = None \<and>
           w' = w\<lparr>fs := fs_put p (Dir (perm AND NOT (umask w))) (fs w)\<rparr>"
  using assms by (auto simp: os_Mkdir_def split: option.splits node.splits if_splits)

lemma os_Mkdir_exists:
  "resolve (cwd w) name = Some p \<Longrightarrow> map_of (fs w) p \<noteq> None \<Longrightarrow> \<exists>e. os_Mkdir name perm w = (Some e, w)"
  by (auto simp: os_Mkdir_def split: option.splits node.splits if_splits)

lemma os_Mkdir_bad_parent:
  "resolve (cwd w) name = Some p \<Longrightarrow> \<not> parent_writable (fs w) p \<Longrightarrow>
     \<exists>e. os_Mkdir name perm w = (Some e, w)"
  by (auto simp: os_Mkdir_def parent_writable_def split: option.splits node.splits if_splits)

lemma WriteFile_Some: "ioutil_WriteFile name data perm w = (Some e, w') \<Longrightarrow> w' = w"
  by (auto simp: ioutil_WriteFile_def split: option.splits node.splits if_splits)

lemma WriteFile_None:
  assumes "ioutil_WriteFile name data perm w = (None, w')"
  shows "\<exists>p dm n. resolve (cwd w) name = Some p \<and> p \<noteq> [] \<and>
           map_of (fs w) (butlast p) = Some (Dir dm) \<and>
           ((map_of (fs w) p = None \<and> owner_w dm \<and> n = File (perm AND NOT (umask w)) data) \<or>
            (\<exists>fm old. map_of (fs w) p = Some (File fm old) \<and> owner_w fm \<and> n = File fm data)) \<and>
           w' = w\<lparr>fs := fs_put p n (fs w)\<rparr>"
  using assms by (auto simp: ioutil_WriteFile_def split: option.splits node.splits if_splits)

lemma createDir_Some:
  "createDir dir w = (Some e, w') \<Longrightarrow> w' = w \<and> (\<exists>en. e = CreateDirError en dir)"
  by (auto simp: createDir_def split: prod.splits option.splits dest: os_Mkdir_Some)

lemma createDir_None:
  assumes "createDir dir w = (None, w')"
  shows "\<exists>p dm. resolve (cwd w) dir = Some p \<and> p \<noteq> [] \<and>
           map_of (fs w) (butlast p) = Some (Dir dm) \<and> owner_w dm \<and> map_of (fs w) p = None \<and>
           w' = w\<lparr>fs := fs_put p (Dir (448 AND NOT (umask w))) (fs w),
                  trace := trace w @ [CreatedDir dir]\<rparr>"
proof -
  from assms obtain w1 where m: "os_Mkdir dir 448 w = (None, w1)"
    and w': "w' = w1\<lparr>trace := trace w1 @ [CreatedDir dir]\<rparr>"
    by (auto simp: createDir_def split: prod.splits option.splits)
  from os_Mkdir_None [OF m] w' show ?thesis by auto
qed

lemma createYAML_Some:
  "createYAML marshal ob file w = (Some e, w') \<Longrightarrow>
     w' = w \<and> ((\<exists>err. marshal ob = Inl err \<and> e = MarshalError ob err) \<or> (\<exists>en. e = CreateFileError en file))"
  by (auto simp: createYAML_def split: sum.splits prod.splits option.splits dest: WriteFile_Some)

lemma createYAML_None:
  assumes "createYAML marshal ob file w = (None, w')"
  shows "\<exists>raw p dm n. marshal ob = Inr raw \<and> resolve (cwd w) file = Some p \<and> p \<noteq> [] \<and>
           map_of (fs w) (butlast p) = Some (Dir dm) \<and>
           ((map_of (fs w) p = None \<and> owner_w dm \<and> n = File (438 AND NOT (umask w)) raw) \<or>
            (\<exists>fm old. map_of (fs w) p = Some (File fm old) \<and> owner_w fm \<and> n = File fm raw)) \<and>
           w' = w\<lparr>fs := fs_put p n (fs w), trace := trace w @ [CreatedYAML ob file]\<rparr>"
proof -
  from assms obtain raw w1 where r: "marshal ob = Inr raw"
    and m: "ioutil_WriteFile file raw 438 w = (None, w1)"
    and w': "w' = w1\<lparr>trace := trace w1 @ [CreatedYAML ob file]\<rparr>"
    by (auto simp: createYAML_def split: sum.splits prod.splits option.splits)
  from WriteFile_None [OF m] obtain p dm n where
    "resolve (cwd w) file = Some p" "p \<noteq> []" "map_of (fs w) (butlast p) = Some (Dir dm)"
    "(map_of (fs w) p = None \<and> owner_w dm \<and> n = File (438 AND NOT (umask w)) raw) \<or>
     (\<exists>fm old. map_of (fs w) p = Some (File fm old) \<and> owner_w fm \<and> n = File fm raw)"
    "w1 = w\<lparr>fs := fs_put p n (fs w)\<rparr>"
    by blast
  with r w' show ?thesis by auto
qed

lemma grows_refl: "grows w w"
  by (simp add: grows_def)

lemma grows_parent_writable:
  "grows w w' \<Longrightarrow> parent_writable (fs w) q \<Longrightarrow> parent_writable (fs w') q"
  by (auto simp: grows_def parent_writable_def split: option.splits node.splits)

lemma grows_trans:
  assumes ab: "grows a b" and bc: "grows b c"
  shows "grows a c"
proof -
  have 1: "cwd c = cwd a" "umask c = umask a" "\<exists>evs. trace c = trace a @ evs"
    using ab bc by (auto simp: grows_def)
  have 2: "\<forall>q m. map_of (fs a) q = Some (Dir m) \<longrightarrow> map_of (fs c) q = Some (Dir m)"
    using ab bc unfolding grows_def by blast
  have 3: "\<forall>q m d. map_of (fs a) q = Some (File m d) \<longrightarrow> (\<exists>d'. map_of (fs c) q = Some (File m d'))"
    using ab bc unfolding grows_def by blast
  have 4: "map_of (fs a) q \<noteq> None \<or> parent_writable (fs c) q" if "map_of (fs c) q \<noteq> None" for q
  proof -
    from that bc have "map_of (fs b) q \<noteq> None \<or> parent_writable (fs c) q"
      unfolding grows_def by blast
    moreover have "map_of (fs a) q \<noteq> None \<or> parent_writable (fs b) q" if "map_of (fs b) q \<noteq> None"
      using that ab unfolding grows_def by blast
    ultimately show ?thesis
      using grows_parent_writable [OF bc] by blast
  qed
  from 1 2 3 4 show ?thesis
    unfolding grows_def by blast
qed

section \<open>Growth of the world under the builder\<close>

lemma grows_put:
  assumes p: "p \<noteq> []" and par: "map_of (fs w) (butlast p) = Some (Dir dm)"
    and n: "(map_of (fs w) p = None \<and> owner_w dm) \<or> (\<exists>fm old d. map_of (fs w) p = Some (File fm old) \<and> n = File fm d)"
  shows "grows w (w\<lparr>fs := fs_put p n (fs w), trace := trace w @ evs\<rparr>)"
proof -
  have ne: "butlast p \<noteq> p" using p by (induction p) auto
  have pw: "map_of (fs w) p = None \<Longrightarrow> parent_writable (fs_put p n (fs w)) p"
    using n p par ne by (auto simp: parent_writable_def map_of_fs_put)
  show ?thesis
    unfolding grows_def using n pw by (auto simp: map_of_fs_put)
qed

lemma createDir_grows: "createDir dir w = (r, w') \<Longrightarrow> grows w w'"
proof (cases r)
  case None
  assume "createDir dir w = (r, w')"
  with None have c: "createDir dir w = (None, w')" by simp
  from createDir_None [OF c] obtain p dm where "p \<noteq> []" "map_of (fs w) (butlast p) = Some (Dir dm)" "owner_w dm"
    "map_of (fs w) p = None"
    "w' = w\<lparr>fs := fs_put p (Dir (448 AND NOT (umask w))) (fs w), trace := trace w @ [CreatedDir dir]\<rparr>"
    by blast
  then show ?thesis using grows_put [of p w dm "Dir (448 AND NOT (umask w))" "[CreatedDir dir]"] by simp
next
  case (Some e)
  assume "createDir dir w = (r, w')"
  with Some have "w' = w" by (auto dest: createDir_Some)
  then show ?thesis by (simp add: grows_refl)
qed

lemma createYAML_grows: "createYAML marshal ob file w = (r, w') \<Longrightarrow> grows w w'"
proof (cases r)
  case None
  assume "createYAML marshal ob file w = (r, w')"
  with None have c: "createYAML marshal ob file w = (None, w')" by simp
  from createYAML_None [OF c] obtain raw p dm n where p: "p \<noteq> []" and par: "map_of (fs w) (butlast p) = Some (Dir dm)"
    and n: "(map_of (fs w) p = None \<and> owner_w dm \<and> n = File (438 AND NOT (umask w)) raw) \<or>
            (\<exists>fm old. map_of (fs w) p = Some (File fm old) \<and> owner_w fm \<and> n = File fm raw)"
    and w': "w' = w\<lparr>fs := fs_put p n (fs w), trace := trace w @ [CreatedYAML ob file]\<rparr>"
    by blast
  from n have "(map_of (fs w) p = None \<and> owner_w dm) \<or>
      (\<exists>fm old d. map_of (fs w) p = Some (File fm old) \<and> n = File fm d)"
    by blast
  from grows_put [OF p par this] show ?thesis unfolding w' .
next
  case (Some e)
  assume "createYAML marshal ob file w = (r, w')"
  with Some have "w' = w" by (auto dest: createYAML_Some)
  then show ?thesis by (simp add: grows_refl)
qed

lemma createCRDYAMLs_loop_grows:
  "createCRDYAMLs_loop marshal crdMap csv dir ks w = (r, w') \<Longrightarrow> grows w w'"
proof (induction ks arbitrary: w)
  case Nil
  then show ?case by (simp add: grows_refl)
next
  case (Cons k ks)
  show ?case
  proof (cases "crdMap k")
    case None
    with Cons.prems show ?thesis by (simp add: grows_refl)
  next
    case (Some crd)
    obtain r1 w1 where s: "createCRDYAML marshal crd dir w = (r1, w1)" by force
    then have g1: "grows w w1" by (auto simp: createCRDYAML_def dest: createYAML_grows)
    show ?thesis
    proof (cases r1)
      case None
      with Cons.prems Some s have "createCRDYAMLs_loop marshal crdMap csv dir ks w1 = (r, w')" by simp
      from Cons.IH [OF this] g1 show ?thesis by (rule grows_trans [rotated])
    next
      case (Some e)
      with Cons.prems \<open>crdMap k = Some crd\<close> s have "w' = w1" by simp
      with g1 show ?thesis by simp
    qed
  qed
qed

lemma createCRDYAMLs_grows: "createCRDYAMLs marshal b csv dir w = (r, w') \<Longrightarrow> grows w w'"
  by (auto simp: createCRDYAMLs_def grows_refl split: sum.splits prod.splits dest: createCRDYAMLs_loop_grows)

lemma createBundleDir_grows: "createBundleDir b csv w = (dr, w') \<Longrightarrow> grows w w'"
  by (auto simp: createBundleDir_def Let_def grows_refl split: sum.splits if_splits prod.splits
      dest: createDir_grows)

lemma createBundle_grows:
  assumes "createBundle marshal b csv w = (r, w')"
  shows "grows w w'"
proof -
  obtain d r1 w1 where s1: "createBundleDir b csv w = ((d, r1), w1)" by (metis surj_pair)
  then have g1: "grows w w1" by (rule createBundleDir_grows)
  show ?thesis
  proof (cases r1)
    case (Some e)
    with assms s1 have "w' = w1" by (simp add: createBundle_def)
    with g1 show ?thesis by simp
  next
    case None
    obtain r2 w2 where s2: "createCRDYAMLs marshal b csv d w1 = (r2, w2)" by force
    then have g2: "grows w1 w2" by (rule createCRDYAMLs_grows)
    show ?thesis
    proof (cases r2)
      case (Some e)
      with assms s1 s2 None have "w' = w2" by (simp add: createBundle_def)
      with g1 g2 show ?thesis using grows_trans by blast
    next
      case None
      with assms s1 s2 \<open>r1 = None\<close> have "createCSVYAML marshal csv d w2 = (r, w')"
        by (simp add: createBundle_def)
      then have "grows w2 w'" by (auto simp: createCSVYAML_def dest: createYAML_grows)
      with g1 g2 show ?thesis using grows_trans by blast
    qed
  qed
qed

lemma createBundles_loop_grows: "grows w (createBundles_loop marshal b csvs w)"
proof (induction csvs arbitrary: w)
  case Nil
  then show ?case by (simp add: grows_refl)
next
  case (Cons csv csvs)
  have "grows w (snd (createBundle marshal b csv w))"
    using createBundle_grows [of marshal b csv w] by (metis prod.collapse)
  moreover have "grows (snd (createBundle marshal b csv w)) (createBundles_loop marshal b csvs (snd (createBundle marshal b csv w)))"
    by (rule Cons.IH)
  ultimately show ?case by (simp add: grows_trans [where b = "snd (createBundle marshal b csv w)"])
qed

section \<open>The lookup table of resource definitions\<close>



section \<open>The steps of \<open>Create\<close>\<close>

lemma createDir_fails:
  "os_Mkdir dir 448 w = (Some e, w) \<Longrightarrow> createDir dir w = (Some (CreateDirError e dir), w)"
  by (simp add: createDir_def)

lemma Create_root_fails:
  assumes "os_Mkdir (Join (registryDir b) (GetPackageID (singleManifest b))) 448 w = (Some e, w)"
  shows "Create marshal b w =
     (Some (CreateDirError e (Join (registryDir b) (GetPackageID (singleManifest b)))),
      b\<lparr>manifestDir := Join (registryDir b) (GetPackageID (singleManifest b))\<rparr>, w)"
  using createDir_fails [OF assms] by (simp add: Create_def createManifestDir_def Let_def)

lemma grows_exists:
  assumes "grows w w'" and "map_of (fs w) q \<noteq> None"
  shows "map_of (fs w') q \<noteq> None"
proof -
  from assms(2) obtain n where n: "map_of (fs w) q = Some n" by blast
  show ?thesis
  proof (cases n)
    case (Dir m)
    with n assms(1) have "map_of (fs w') q = Some (Dir m)" unfolding grows_def by blast
    then show ?thesis by simp
  next
    case (File m d)
    with n assms(1) have "\<exists>d'. map_of (fs w') q = Some (File m d')" unfolding grows_def by blast
    then show ?thesis by auto
  qed
qed

lemma Create_unfold:
  "Create marshal b w =
     (case createDir (Join (registryDir b) (GetPackageID (singleManifest b))) w of
        (Some e, w0) \<Rightarrow>
          (Some e, b\<lparr>manifestDir := Join (registryDir b) (GetPackageID (singleManifest b))\<rparr>, w0)
      | (None, w0) \<Rightarrow>
          (case createPackageYAML marshal
                  (b\<lparr>manifestDir := Join (registryDir b) (GetPackageID (singleManifest b))\<rparr>) w0 of
             (Some e, w2) \<Rightarrow>
               (Some e, b\<lparr>manifestDir := Join (registryDir b) (GetPackageID (singleManifest b))\<rparr>, w2)
           | (None, w2) \<Rightarrow>
               (None, b\<lparr>manifestDir := Join (registryDir b) (GetPackageID (singleManifest b))\<rparr>,
                createBundles_loop marshal
                  (b\<lparr>manifestDir := Join (registryDir b) (GetPackageID (singleManifest b))\<rparr>)
                  (ClusterServiceVersions (singleManifest b)) w2)))"
  by (simp add: Create_def createManifestDir_def Let_def createBundles_def
      split: prod.splits option.splits)

lemma createDir_Some_Mkdir:
  "createDir dir w = (Some e, w') \<Longrightarrow> \<exists>en. e = CreateDirError en dir \<and> os_Mkdir dir 448 w = (Some en, w) \<and> w' = w"
  by (auto simp: createDir_def split: prod.splits option.splits dest: os_Mkdir_Some)

lemma Create_after_root:
  assumes d: "createDir (Join (registryDir b) (GetPackageID (singleManifest b))) w = (None, w0)"
    and c: "Create marshal b w = (r, b1, w1)"
  shows "grows w0 w1 \<and> b1 = b\<lparr>manifestDir := Join (registryDir b) (GetPackageID (singleManifest b))\<rparr>"
proof -
  let ?b = "b\<lparr>manifestDir := Join (registryDir b) (GetPackageID (singleManifest b))\<rparr>"
  obtain r2 w2 where p: "createPackageYAML marshal ?b w0 = (r2, w2)" by force
  then have g2: "grows w0 w2" by (auto simp: createPackageYAML_def dest: createYAML_grows)
  show ?thesis
  proof (cases r2)
    case (Some e)
    with d p c have "w1 = w2" "b1 = ?b"
      by (auto simp: Create_unfold)
    with g2 show ?thesis by simp
  next
    case None
    with d p c have w1: "w1 = createBundles_loop marshal ?b (ClusterServiceVersions (singleManifest b)) w2"
      and b1: "b1 = ?b"
      by (auto simp: Create_unfold)
    have "grows w2 w1" unfolding w1 by (rule createBundles_loop_grows)
    with g2 have "grows w0 w1" by (rule grows_trans)
    with b1 show ?thesis by simp
  qed
qed

lemma createDir_None_exists:
  assumes "createDir dir w = (None, w0)"
  shows "\<exists>p. resolve (cwd w) dir = Some p \<and> map_of (fs w0) p \<noteq> None \<and> cwd w0 = cwd w"
proof -
  from createDir_None [OF assms] obtain p dm where
    r: "resolve (cwd w) dir = Some p" and
    w0: "w0 = w\<lparr>fs := fs_put p (Dir (448 AND NOT (umask w))) (fs w), trace := trace w @ [CreatedDir dir]\<rparr>"
    by blast
  have "map_of (fs w0) p \<noteq> None" "cwd w0 = cwd w"
    unfolding w0 by (simp_all add: map_of_fs_put)
  with r show ?thesis by blast
qed

lemma Create_again_after_failure:
  assumes "Create marshal b w = (r, b1, w1)"
    and "createDir (Join (registryDir b) (GetPackageID (singleManifest b))) w = (Some e0, w0)"
  shows "\<exists>e. Create marshal b1 w1 = (Some (CreateDirError e (manifestDir b1)), b1, w1)"
proof -
  let ?t = "Join (registryDir b) (GetPackageID (singleManifest b))"
  let ?b = "b\<lparr>manifestDir := ?t\<rparr>"
  from createDir_Some_Mkdir [OF assms(2)] obtain en where
    en: "os_Mkdir ?t 448 w = (Some en, w)" and w0: "w0 = w" by blast
  from assms have b1: "b1 = ?b" and w1: "w1 = w"
    by (simp_all add: Create_unfold w0)
  from en have "os_Mkdir (Join (registryDir ?b) (GetPackageID (singleManifest ?b))) 448 w = (Some en, w)"
    by simp
  from Create_root_fails [OF this, of marshal]
  have "Create marshal ?b w = (Some (CreateDirError en ?t), ?b, w)" by simp
  then show ?thesis unfolding b1 w1 by simp
qed

lemma Create_again_after_success:
  assumes c: "Create marshal b w = (r, b1, w1)"
    and d: "createDir (Join (registryDir b) (GetPackageID (singleManifest b))) w = (None, w0)"
  shows "\<exists>e. Create marshal b1 w1 = (Some (CreateDirError e (manifestDir b1)), b1, w1)"
proof -
  let ?t = "Join (registryDir b) (GetPackageID (singleManifest b))"
  let ?b = "b\<lparr>manifestDir := ?t\<rparr>"
  from Create_after_root [OF d c] have g: "grows w0 w1" and b1: "b1 = ?b" by simp_all
  from createDir_None_exists [OF d] obtain p' where
    p': "resolve (cwd w) ?t = Some p'" and ex: "map_of (fs w0) p' \<noteq> None" and cw: "cwd w0 = cwd w"
    by blast
  from g cw have "cwd w1 = cwd w" by (simp add: grows_def)
  with p' have r1: "resolve (cwd w1) ?t = Some p'" by simp
  from grows_exists [OF g ex] have e1: "map_of (fs w1) p' \<noteq> None" .
  from os_Mkdir_exists [OF r1 e1] obtain en where "os_Mkdir ?t 448 w1 = (Some en, w1)" by blast
  then have "os_Mkdir (Join (registryDir ?b) (GetPackageID (singleManifest ?b))) 448 w1 = (Some en, w1)"
    by simp
  from Create_root_fails [OF this, of marshal]
  have "Create marshal ?b w1 = (Some (CreateDirError en ?t), ?b, w1)" by simp
  then show ?thesis unfolding b1 by simp
qed

lemma createBundles_never_fails: "fst (createBundles marshal b w) = None"
  by (simp add: createBundles_def)

lemma dir_mode_owner_only: "(448 AND NOT u) AND (63 :: mode) = 0"
proof -
  have "(448 AND NOT u) AND (63 :: mode) = (448 AND 63) AND NOT u"
    by (simp add: and.assoc and.commute and.left_commute)
  also have "\<dots> = 0" by simp
  finally show ?thesis .
qed

section \<open>What one bundle writes, and in which order\<close>

lemma createYAML_trace:
  assumes "createYAML marshal ob fname w = (r, w')"
  shows "(r = None \<longrightarrow> trace w' = trace w @ [CreatedYAML ob fname]) \<and> (r \<noteq> None \<longrightarrow> w' = w)"
proof (cases r)
  case None
  with assms have c: "createYAML marshal ob fname w = (None, w')" by simp
  from createYAML_None [OF c] obtain p n where
    "w' = w\<lparr>fs := fs_put p n (fs w), trace := trace w @ [CreatedYAML ob fname]\<rparr>" by blast
  with None show ?thesis by simp
next
  case (Some e)
  with assms have "w' = w" by (auto dest: createYAML_Some)
  with Some show ?thesis by simp
qed



lemma createCRDYAMLs_loop_append:
  "createCRDYAMLs_loop marshal crdMap csv dir (xs @ ys) w =
     (case createCRDYAMLs_loop marshal crdMap csv dir xs w of
        (Some e, w') \<Rightarrow> (Some e, w')
      | (None, w') \<Rightarrow> createCRDYAMLs_loop marshal crdMap csv dir ys w')"
  by (induction xs arbitrary: w) (auto split: option.splits prod.splits)

lemma createCRDYAMLs_loop_unresolved:
  "k \<in> set ks \<Longrightarrow> crdMap k = None \<Longrightarrow>
     \<exists>e w'. createCRDYAMLs_loop marshal crdMap csv dir ks w = (Some e, w')"
  by (induction ks arbitrary: w) (auto split: option.splits prod.splits)

lemma createCRDYAMLs_loop_events:
  "createCRDYAMLs_loop marshal crdMap csv dir ks w = (r, w') \<Longrightarrow>
     \<exists>evs. trace w' = trace w @ evs \<and> (\<forall>ev \<in> set evs. \<exists>crd f. ev = CreatedYAML (CRDObj crd) f)"
proof (induction ks arbitrary: w)
  case Nil
  then show ?case by simp
next
  case (Cons k ks)
  show ?case
  proof (cases "crdMap k")
    case None
    with Cons.prems show ?thesis by simp
  next
    case (Some crd)
    obtain r1 w1 where s: "createCRDYAML marshal crd dir w = (r1, w1)" by force
    then have y: "createYAML marshal (CRDObj crd) (Join dir (crd_GetName crd @ ''.crd.yaml'')) w = (r1, w1)"
      by (simp add: createCRDYAML_def)
    show ?thesis
    proof (cases r1)
      case None
      with createYAML_trace [OF y]
      have t1: "trace w1 = trace w @ [CreatedYAML (CRDObj crd) (Join dir (crd_GetName crd @ ''.crd.yaml''))]"
        by simp
      from Cons.prems Some s None have "createCRDYAMLs_loop marshal crdMap csv dir ks w1 = (r, w')" by simp
      from Cons.IH [OF this] obtain evs where
        "trace w' = trace w1 @ evs" "\<forall>ev \<in> set evs. \<exists>crd f. ev = CreatedYAML (CRDObj crd) f" by blast
      with t1 have "trace w' = trace w @ (CreatedYAML (CRDObj crd) (Join dir (crd_GetName crd @ ''.crd.yaml'')) # evs)"
        "\<forall>ev \<in> set (CreatedYAML (CRDObj crd) (Join dir (crd_GetName crd @ ''.crd.yaml'')) # evs).
            \<exists>crd f. ev = CreatedYAML (CRDObj crd) f"
        by simp_all
      then show ?thesis by blast
    next
      case (Some e)
      with createYAML_trace [OF y] have "w1 = w" by simp
      moreover from Cons.prems \<open>crdMap k = Some crd\<close> s Some have "w' = w1" by simp
      ultimately show ?thesis by simp
    qed
  qed
qed


lemma createDir_trace:
  assumes "createDir d w = (None, w1)"
  shows "trace w1 = trace w @ [CreatedDir d]"
proof -
  from createDir_None [OF assms] obtain p where
    "w1 = w\<lparr>fs := fs_put p (Dir (448 AND NOT (umask w))) (fs w), trace := trace w @ [CreatedDir d]\<rparr>"
    by blast
  then show ?thesis by simp
qed

lemma createBundleDir_result:
  assumes "createBundleDir b csv w = ((d, r), w1)"
  shows "(r \<noteq> None \<longrightarrow> w1 = w) \<and>
         (r = None \<longrightarrow> (\<exists>v. csv_GetVersion csv = Inr v \<and> v \<noteq> [] \<and> d = Join (manifestDir b) v \<and>
                               createDir d w = (None, w1)))"
proof (cases "csv_GetVersion csv")
  case (Inl err)
  with assms show ?thesis by (auto simp: createBundleDir_def)
next
  case (Inr v)
  show ?thesis
  proof (cases "v = []")
    case True
    with Inr assms show ?thesis by (auto simp: createBundleDir_def)
  next
    case False
    obtain r0 w0 where c: "createDir (Join (manifestDir b) v) w = (r0, w0)" by force
    with Inr False assms have e: "d = Join (manifestDir b) v" "r = r0" "w1 = w0"
      by (auto simp: createBundleDir_def Let_def)
    show ?thesis
    proof (cases r0)
      case None
      with c e Inr False show ?thesis by simp
    next
      case (Some e0)
      with c have "w0 = w" by (auto dest: createDir_Some)
      with Some e show ?thesis by simp
    qed
  qed
qed

lemma createBundle_unfold:
  assumes "createBundleDir b csv w = ((d, None), w1)"
  shows "createBundle marshal b csv w =
     (case createCRDYAMLs marshal b csv d w1 of
        (Some e, w2) \<Rightarrow> (Some e, w2)
      | (None, w2) \<Rightarrow> createCSVYAML marshal csv d w2)"
  using assms by (simp add: createBundle_def)

lemma createBundle_dir_failed:
  assumes "createBundleDir b csv w = ((d, Some e), w1)"
  shows "createBundle marshal b csv w = (Some e, w)"
  using assms createBundleDir_result [OF assms] by (simp add: createBundle_def)

lemma createCRDYAMLs_events:
  assumes "createCRDYAMLs marshal b csv d w = (r, w')"
  shows "\<exists>evs. trace w' = trace w @ evs \<and> (\<forall>ev \<in> set evs. \<exists>crd f. ev = CreatedYAML (CRDObj crd) f)"
proof (cases "csv_GetCustomResourceDefintions csv")
  case (Inl err)
  with assms show ?thesis by (auto simp: createCRDYAMLs_def)
next
  case (Inr oks)
  obtain owned required where "oks = (owned, required)" by force
  with Inr assms have "createCRDYAMLs_loop marshal
      (build_crdMap (CustomResourceDefinitions (singleManifest b))) csv d owned w = (r, w')"
    by (simp add: createCRDYAMLs_def)
  then show ?thesis by (rule createCRDYAMLs_loop_events)
qed

lemma createBundle_failure_trace:
  assumes "createBundle marshal b csv w = (Some e, w')"
  shows "\<exists>evs. trace w' = trace w @ evs \<and> (\<forall>f. CreatedYAML (CSVObj csv) f \<notin> set evs)"
proof -
  obtain d r1 w1 where s1: "createBundleDir b csv w = ((d, r1), w1)" by (metis surj_pair)
  show ?thesis
  proof (cases r1)
    case (Some e1)
    with s1 have "createBundle marshal b csv w = (Some e1, w)" by (simp add: createBundle_dir_failed)
    with assms have "w' = w" by simp
    then show ?thesis by simp
  next
    case None
    with s1 have s1': "createBundleDir b csv w = ((d, None), w1)" by simp
    from createBundleDir_result [OF s1'] have "createDir d w = (None, w1)" by blast
    then have t1: "trace w1 = trace w @ [CreatedDir d]" by (rule createDir_trace)
    obtain r2 w2 where s2: "createCRDYAMLs marshal b csv d w1 = (r2, w2)" by force
    from createCRDYAMLs_events [OF s2] obtain evs where
      t2: "trace w2 = trace w1 @ evs" and ev: "\<forall>ev \<in> set evs. \<exists>crd f. ev = CreatedYAML (CRDObj crd) f"
      by blast
    have w': "w' = w2"
    proof (cases r2)
      case (Some e2)
      with assms s2 show ?thesis by (simp add: createBundle_unfold [OF s1'])
    next
      case None
      with assms s2 have "createCSVYAML marshal csv d w2 = (Some e, w')"
        by (simp add: createBundle_unfold [OF s1'])
      then show ?thesis by (auto simp: createCSVYAML_def dest: createYAML_Some)
    qed
    have "trace w' = trace w @ (CreatedDir d # evs)" unfolding w' t2 t1 by simp
    moreover have "\<forall>f. CreatedYAML (CSVObj csv) f \<notin> set (CreatedDir d # evs)"
      using ev by auto
    ultimately show ?thesis by blast
  qed
qed


section \<open>Removal\<close>













section \<open>Claims about the builder\<close>



text \<open>
  C4. A release whose version is the empty string cannot be materialized:
  \<open>createBundleDir\<close> returns the missing-version error and the empty path, and
  \<open>createBundle\<close> fails with that error. The world is the one before the call: no
  directory was created and no other version was tried. When the version accessor
  itself reports an error, that error is returned, again with the world untouched.
\<close>

theorem missing_version_fails:
  "(csv_GetVersion csv = Inr [] \<longrightarrow>
      createBundleDir b csv w = (([], Some MissingVersion), w) \<and>
      createBundle marshal b csv w = (Some MissingVersion, w)) \<and>
   (csv_GetVersion csv = Inl err \<longrightarrow>
      createBundleDir b csv w = (([], Some (Upstream err)), w) \<and>
      createBundle marshal b csv w = (Some (Upstream err), w))"
  by (simp add: createBundleDir_def createBundle_def)

theorem missing_version_fails_witness:
  "csv_GetVersion csv_noversion = Inr [] \<and>
   createBundleDir (NewManifest (etcd [csv_noversion]) ''/tmp'') csv_noversion world0
     = (([], Some MissingVersion), world0) \<and>
   createBundle doc_marshal (NewManifest (etcd [csv_noversion]) ''/tmp'') csv_noversion world0
     = (Some MissingVersion, world0) \<and>
   csv_GetVersion csv_unparsed = Inl (ParseError ''unexpected end of JSON input'') \<and>
   createBundle doc_marshal (NewManifest (etcd [csv_unparsed]) ''/tmp'') csv_unparsed world0
     = (Some (Upstream (ParseError ''unexpected end of JSON input'')), world0)"
proof -
  have h1: "csv_GetVersion csv_noversion = Inr []"
    by (simp add: csv_noversion_def)
  have h2: "csv_GetVersion csv_unparsed = Inl (ParseError ''unexpected end of JSON input'')"
    by (simp add: csv_unparsed_def)
  from h1 h2
    missing_version_fails [of csv_noversion "NewManifest (etcd [csv_noversion]) ''/tmp''" world0 doc_marshal]
    missing_version_fails [of csv_unparsed "NewManifest (etcd [csv_unparsed]) ''/tmp''" world0 doc_marshal
      "ParseError ''unexpected end of JSON input''"]
  show ?thesis by simp
qed

text \<open>
  C8. When the directory that is to hold the package root is not a writable directory
  (it does not exist, is a file, or lacks the write bit), the first directory creation
  of \<open>Create\<close> fails; \<open>Create\<close> returns the error of \<open>createDir\<close>, which carries the
  system's error and the path of the root, and the world (file system and trace) is the
  one before the call: no file was created. This is stated twice: for the directory
  above the root path, whatever the package identifier is, and for the directory that
  \<open>registryDir\<close> names, when the package identifier is a simple name.
\<close>

theorem bad_parent_fails:
  "(resolve (cwd w) (Join (registryDir b) (GetPackageID (singleManifest b))) = Some p \<and>
    \<not> (\<exists>m. map_of (fs w) (butlast p) = Some (Dir m) \<and> owner_w m) \<longrightarrow>
      (\<exists>e. os_Mkdir (Join (registryDir b) (GetPackageID (singleManifest b))) 448 w = (Some e, w) \<and>
         Create marshal b w =
           (Some (CreateDirError e (Join (registryDir b) (GetPackageID (singleManifest b)))),
            b\<lparr>manifestDir := Join (registryDir b) (GetPackageID (singleManifest b))\<rparr>, w))) \<and>
   (resolve (cwd w) (registryDir b) = Some d \<and> simple_name (GetPackageID (singleManifest b)) \<and>
    \<not> (\<exists>m. map_of (fs w) d = Some (Dir m) \<and> owner_w m) \<longrightarrow>
      (\<exists>e. os_Mkdir (Join (registryDir b) (GetPackageID (singleManifest b))) 448 w = (Some e, w) \<and>
         Create marshal b w =
           (Some (CreateDirError e (Join (registryDir b) (GetPackageID (singleManifest b)))),
            b\<lparr>manifestDir := Join (registryDir b) (GetPackageID (singleManifest b))\<rparr>, w)))"
proof -
  let ?t = "Join (registryDir b) (GetPackageID (singleManifest b))"
  have root: "\<exists>e. os_Mkdir ?t 448 w = (Some e, w) \<and>
         Create marshal b w = (Some (CreateDirError e ?t), b\<lparr>manifestDir := ?t\<rparr>, w)"
    if r: "resolve (cwd w) ?t = Some q"
      and n: "\<not> (\<exists>m. map_of (fs w) (butlast q) = Some (Dir m) \<and> owner_w m)" for q
  proof -
    from n have "\<not> parent_writable (fs w) q"
      by (auto simp: parent_writable_def split: option.splits node.splits)
    from os_Mkdir_bad_parent [OF r this] obtain e where
      m: "os_Mkdir ?t 448 w = (Some e, w)" by blast
    from Create_root_fails [OF m, of marshal] m show ?thesis by blast
  qed
  show ?thesis
  proof (intro conjI impI)
    assume "resolve (cwd w) ?t = Some p \<and>
      \<not> (\<exists>m. map_of (fs w) (butlast p) = Some (Dir m) \<and> owner_w m)"
    then show "\<exists>e. os_Mkdir ?t 448 w = (Some e, w) \<and>
         Create marshal b w = (Some (CreateDirError e ?t), b\<lparr>manifestDir := ?t\<rparr>, w)"
      using root [of p] by blast
  next
    assume h: "resolve (cwd w) (registryDir b) = Some d \<and> simple_name (GetPackageID (singleManifest b)) \<and>
      \<not> (\<exists>m. map_of (fs w) d = Some (Dir m) \<and> owner_w m)"
    then have "resolve (cwd w) ?t = Some (d @ [GetPackageID (singleManifest b)])"
      by (simp add: resolve_Join_simple)
    moreover from h have "\<not> (\<exists>m. map_of (fs w) (butlast (d @ [GetPackageID (singleManifest b)])) = Some (Dir m) \<and> owner_w m)"
      by simp
    ultimately show "\<exists>e. os_Mkdir ?t 448 w = (Some e, w) \<and>
         Create marshal b w = (Some (CreateDirError e ?t), b\<lparr>manifestDir := ?t\<rparr>, w)"
      by (rule root)
  qed
qed

text \<open>The test's \<open>/badir\<close>, which does not exist, and a directory without the write bit.\<close>

theorem bad_parent_fails_witness:
  "resolve (cwd world0) ''/badir'' = Some [''badir''] \<and> simple_name ''etcd'' \<and>
   map_of (fs world0) [''badir''] = None \<and>
   resolve (cwd world0) (Join ''/badir'' ''etcd'') = Some [''badir'', ''etcd''] \<and>
   Create doc_marshal (NewManifest (etcd [csv_061]) ''/badir'') world0 =
     (Some (CreateDirError ENOENT ''/badir/etcd''),
      (NewManifest (etcd [csv_061]) ''/badir'')\<lparr>manifestDir := ''/badir/etcd''\<rparr>, world0) \<and>
   resolve (cwd world_ro) ''/ro'' = Some [''ro''] \<and> simple_name ''prometheus'' \<and>
   map_of (fs world_ro) [''ro''] = Some (Dir 365) \<and> \<not> owner_w 365 \<and>
   Create doc_marshal (NewManifest prometheus ''/ro'') world_ro =
     (Some (CreateDirError EACCES ''/ro/prometheus''),
      (NewManifest prometheus ''/ro'')\<lparr>manifestDir := ''/ro/prometheus''\<rparr>, world_ro)"
proof -
  let ?e = "NewManifest (etcd [csv_061]) ''/badir''"
  let ?p = "NewManifest prometheus ''/ro''"
  have n: "registryDir ?e = ''/badir''" "GetPackageID (singleManifest ?e) = ''etcd''"
    "registryDir ?p = ''/ro''" "GetPackageID (singleManifest ?p) = ''prometheus''"
    "Join ''/badir'' ''etcd'' = ''/badir/etcd''" "Join ''/ro'' ''prometheus'' = ''/ro/prometheus''"
    by code_simp+
  have f: "resolve (cwd world0) ''/badir'' = Some [''badir'']" "simple_name ''etcd''"
    "map_of (fs world0) [''badir''] = None"
    "resolve (cwd world0) ''/badir/etcd'' = Some [''badir'', ''etcd'']"
    "resolve (cwd world_ro) ''/ro'' = Some [''ro'']" "simple_name ''prometheus''"
    "map_of (fs world_ro) [''ro''] = Some (Dir 365)" "\<not> owner_w 365"
    "os_Mkdir ''/badir/etcd'' 448 world0 = (Some ENOENT, world0)"
    "os_Mkdir ''/ro/prometheus'' 448 world_ro = (Some EACCES, world_ro)"
    by code_simp+
  have h1: "resolve (cwd world0) (Join (registryDir ?e) (GetPackageID (singleManifest ?e))) = Some [''badir'', ''etcd''] \<and>
    \<not> (\<exists>m. map_of (fs world0) (butlast [''badir'', ''etcd'']) = Some (Dir m) \<and> owner_w m)"
    unfolding n using f by simp
  have h2: "resolve (cwd world_ro) (registryDir ?p) = Some [''ro''] \<and>
    simple_name (GetPackageID (singleManifest ?p)) \<and>
    \<not> (\<exists>m. map_of (fs world_ro) [''ro''] = Some (Dir m) \<and> owner_w m)"
    unfolding n using f by simp
  from mp [OF bad_parent_fails [of world0 ?e "[''badir'', ''etcd'']" doc_marshal "[''badir'']", THEN conjunct1] h1]
  obtain e1 where 1: "os_Mkdir ''/badir/etcd'' 448 world0 = (Some e1, world0)"
    "Create doc_marshal ?e world0 = (Some (CreateDirError e1 ''/badir/etcd''), ?e\<lparr>manifestDir := ''/badir/etcd''\<rparr>, world0)"
    unfolding n by blast
  from mp [OF bad_parent_fails [of world_ro ?p "[''ro'', ''prometheus'']" doc_marshal "[''ro'']", THEN conjunct2] h2]
  obtain e2 where 2: "os_Mkdir ''/ro/prometheus'' 448 world_ro = (Some e2, world_ro)"
    "Create doc_marshal ?p world_ro = (Some (CreateDirError e2 ''/ro/prometheus''), ?p\<lparr>manifestDir := ''/ro/prometheus''\<rparr>, world_ro)"
    unfolding n by blast
  from 1(1) f(9) have e1: "e1 = ENOENT" by simp
  from 2(1) f(10) have e2: "e2 = EACCES" by simp
  from 1(2) 2(2) f show ?thesis unfolding e1 e2 n by simp
qed

text \<open>
  C9. Whatever a first \<open>Create\<close> returned, a second \<open>Create\<close> on the builder it left,
  in the world it left, fails in the creation of the root directory and changes
  nothing. The same holds for any builder whose root path already names an entry of the
  file system: \<open>Create\<close> never writes into an existing root.
\<close>

theorem create_again_fails:
  "(Create marshal b w = (r, b1, w1) \<longrightarrow>
      (\<exists>e. Create marshal b1 w1 = (Some (CreateDirError e (manifestDir b1)), b1, w1))) \<and>
   (resolve (cwd w) (Join (registryDir b) (GetPackageID (singleManifest b))) = Some p \<and>
    map_of (fs w) p \<noteq> None \<longrightarrow>
      (\<exists>e. Create marshal b w =
         (Some (CreateDirError e (Join (registryDir b) (GetPackageID (singleManifest b)))),
          b\<lparr>manifestDir := Join (registryDir b) (GetPackageID (singleManifest b))\<rparr>, w)))"
proof (intro conjI impI)
  let ?t = "Join (registryDir b) (GetPackageID (singleManifest b))"
  assume c: "Create marshal b w = (r, b1, w1)"
  obtain r0 w0 where d: "createDir ?t w = (r0, w0)" by force
  show "\<exists>e. Create marshal b1 w1 = (Some (CreateDirError e (manifestDir b1)), b1, w1)"
  proof (cases r0)
    case (Some e0)
    with d have "createDir ?t w = (Some e0, w0)" by simp
    from Create_again_after_failure [OF c this] show ?thesis .
  next
    case None
    with d have "createDir ?t w = (None, w0)" by simp
    from Create_again_after_success [OF c this] show ?thesis .
  qed
next
  let ?t = "Join (registryDir b) (GetPackageID (singleManifest b))"
  assume "resolve (cwd w) ?t = Some p \<and> map_of (fs w) p \<noteq> None"
  then have "resolve (cwd w) ?t = Some p" "map_of (fs w) p \<noteq> None" by simp_all
  from os_Mkdir_exists [OF this] obtain en where "os_Mkdir ?t 448 w = (Some en, w)"
    by blast
  from Create_root_fails [OF this, of marshal]
  show "\<exists>e. Create marshal b w = (Some (CreateDirError e ?t), b\<lparr>manifestDir := ?t\<rparr>, w)" by blast
qed

theorem create_again_fails_witness:
  "fst (Create doc_marshal (NewManifest (etcd [csv_061]) ''/tmp'') world0) = None \<and>
   Create doc_marshal
       (fst (snd (Create doc_marshal (NewManifest (etcd [csv_061]) ''/tmp'') world0)))
       (snd (snd (Create doc_marshal (NewManifest (etcd [csv_061]) ''/tmp'') world0))) =
     (Some (CreateDirError EEXIST ''/tmp/etcd''),
      fst (snd (Create doc_marshal (NewManifest (etcd [csv_061]) ''/tmp'') world0)),
      snd (snd (Create doc_marshal (NewManifest (etcd [csv_061]) ''/tmp'') world0))) \<and>
   resolve (cwd world_ro) (Join ''/ro'' ''etcd'') = Some [''ro'', ''etcd''] \<and>
   map_of (fs world_ro) [''ro'', ''etcd''] = Some (Dir 493) \<and>
   Create doc_marshal (NewManifest (etcd [csv_061]) ''/ro'') world_ro =
     (Some (CreateDirError EEXIST ''/ro/etcd''),
      (NewManifest (etcd [csv_061]) ''/ro'')\<lparr>manifestDir := ''/ro/etcd''\<rparr>, world_ro)"
proof -
  let ?c = "Create doc_marshal (NewManifest (etcd [csv_061]) ''/tmp'') world0"
  have c: "?c = (fst ?c, fst (snd ?c), snd (snd ?c))" by simp
  have r: "resolve (cwd world_ro)
      (Join (registryDir (NewManifest (etcd [csv_061]) ''/ro''))
         (GetPackageID (singleManifest (NewManifest (etcd [csv_061]) ''/ro'')))) = Some [''ro'', ''etcd''] \<and>
      map_of (fs world_ro) [''ro'', ''etcd''] \<noteq> None"
    by code_simp
  have e: "fst ?c = None"
    "manifestDir (fst (snd ?c)) = ''/tmp/etcd''"
    "fst (Create doc_marshal (fst (snd ?c)) (snd (snd ?c))) = Some (CreateDirError EEXIST ''/tmp/etcd'')"
    "resolve (cwd world_ro) (Join ''/ro'' ''etcd'') = Some [''ro'', ''etcd'']"
    "map_of (fs world_ro) [''ro'', ''etcd''] = Some (Dir 493)"
    "fst (Create doc_marshal (NewManifest (etcd [csv_061]) ''/ro'') world_ro) = Some (CreateDirError EEXIST ''/ro/etcd'')"
    "Join (registryDir (NewManifest (etcd [csv_061]) ''/ro''))
         (GetPackageID (singleManifest (NewManifest (etcd [csv_061]) ''/ro''))) = ''/ro/etcd''"
    by code_simp+
  from create_again_fails [of doc_marshal "NewManifest (etcd [csv_061]) ''/tmp''" world0
      "fst ?c" "fst (snd ?c)" "snd (snd ?c)"] c
  obtain e1 where 1: "Create doc_marshal (fst (snd ?c)) (snd (snd ?c)) =
      (Some (CreateDirError e1 (manifestDir (fst (snd ?c)))), fst (snd ?c), snd (snd ?c))"
    by blast
  from create_again_fails [of doc_marshal "NewManifest (etcd [csv_061]) ''/ro''" world_ro _ _ _
      "[''ro'', ''etcd'']"] r
  obtain e2 where 2: "Create doc_marshal (NewManifest (etcd [csv_061]) ''/ro'') world_ro =
      (Some (CreateDirError e2 ''/ro/etcd''),
       (NewManifest (etcd [csv_061]) ''/ro'')\<lparr>manifestDir := ''/ro/etcd''\<rparr>, world_ro)"
    unfolding e(7) by blast
  from 1 e(2,3) have e1: "e1 = EEXIST" by simp
  from 2 e(6) have e2: "e2 = EEXIST" by simp
  from 1 2 e show ?thesis unfolding e1 e2 by simp
qed

text \<open>
  C1. The claim says that \<open>Create\<close> returns the first error of a release and stops.
  The code does neither. In the package below the first release has no version:
  its bundle fails with the missing-version error, yet \<open>Create\<close> returns no error and
  goes on to materialize the second release (see \<open>createBundles_never_fails\<close>: the
  loop drops every result of \<open>createBundle\<close>).
\<close>

theorem create_hides_missing_version:
  "createBundle doc_marshal
       ((NewManifest (etcd [csv_noversion, csv_061]) ''/tmp'')\<lparr>manifestDir := ''/tmp/etcd''\<rparr>)
       csv_noversion world0 = (Some MissingVersion, world0) \<and>
   fst (Create doc_marshal (NewManifest (etcd [csv_noversion, csv_061]) ''/tmp'') world0) = None \<and>
   trace (snd (snd (Create doc_marshal (NewManifest (etcd [csv_noversion, csv_061]) ''/tmp'') world0))) =
     [CreatedDir ''/tmp/etcd'',
      CreatedYAML (PackageObj ''packageName: etcd'') ''/tmp/etcd/etcd.package.yaml'',
      CreatedDir ''/tmp/etcd/0.6.1'',
      CreatedYAML (CRDObj crd_clusters) ''/tmp/etcd/0.6.1/etcdclusters.etcd.database.coreos.com.crd.yaml'',
      CreatedYAML (CSVObj csv_061) ''/tmp/etcd/0.6.1/etcdoperator.v0.6.1.csv.yaml'']"
  by code_simp

text \<open>
  C2. The claim says that \<open>Create\<close> never returns success while a declared release is
  missing from the tree. In the package below both releases have the version
  \<open>0.6.1\<close> and own a definition of the collection. The second bundle fails, since its
  directory exists; \<open>Create\<close> returns no error, and the tree holds one release
  directory and one release descriptor for two releases.
\<close>

theorem create_succeeds_on_incomplete_tree:
  "csv_GetVersion csv_061 = Inr ''0.6.1'' \<and> csv_GetVersion csv_061_again = Inr ''0.6.1'' \<and>
   csv_GetCustomResourceDefintions csv_061 = Inr ([key_clusters], []) \<and>
   csv_GetCustomResourceDefintions csv_061_again = Inr ([key_clusters], []) \<and>
   build_crdMap (CustomResourceDefinitions (etcd [csv_061, csv_061_again])) key_clusters = Some crd_clusters \<and>
   fst (Create doc_marshal (NewManifest (etcd [csv_061, csv_061_again]) ''/tmp'') world0) = None \<and>
   map fst (fs (snd (snd (Create doc_marshal (NewManifest (etcd [csv_061, csv_061_again]) ''/tmp'') world0)))) =
     [[''tmp'', ''etcd'', ''0.6.1'', ''etcdoperator.v0.6.1.csv.yaml''],
      [''tmp'', ''etcd'', ''0.6.1'', ''etcdclusters.etcd.database.coreos.com.crd.yaml''],
      [''tmp'', ''etcd'', ''0.6.1''],
      [''tmp'', ''etcd'', ''etcd.package.yaml''],
      [''tmp'', ''etcd''], [], [''tmp'']] \<and>
   fst (createBundle doc_marshal
       ((NewManifest (etcd [csv_061, csv_061_again]) ''/tmp'')\<lparr>manifestDir := ''/tmp/etcd''\<rparr>)
       csv_061_again
       (snd (createBundle doc_marshal
          ((NewManifest (etcd [csv_061, csv_061_again]) ''/tmp'')\<lparr>manifestDir := ''/tmp/etcd''\<rparr>)
          csv_061
          (snd (snd (Create doc_marshal (NewManifest (etcd []) ''/tmp'') world0))))))
     = Some (CreateDirError EEXIST ''/tmp/etcd/0.6.1'')"
  by code_simp

text \<open>
  C6. The claim says that a written file grants group and others nothing but reading.
  \<open>createYAML\<close> asks for mode \<open>0666\<close> (438), so under umask 0 the new file is
  writable by group and others (18 is \<open>0022\<close>): the claim fails as stated.
\<close>

theorem file_mode_counterexample:
  "fst (createYAML doc_marshal (PackageObj ''packageName: etcd'') ''/tmp/etcd.package.yaml'' world_umask0) = None \<and>
   map_of (fs (snd (createYAML doc_marshal (PackageObj ''packageName: etcd'') ''/tmp/etcd.package.yaml''
      world_umask0))) [''tmp'', ''etcd.package.yaml''] = Some (File 438 ''packageName: etcd'') \<and>
   (438 :: mode) \<noteq> 420 \<and> (438 :: mode) AND 18 = 18"
  by code_simp

text \<open>
  C6, amended. A directory created by \<open>createDir\<close> is new and has mode \<open>0700\<close> less the
  bits of the umask, so it grants nothing to group and others (63 is \<open>0077\<close>). A file
  written by \<open>createYAML\<close> holds the serialized object; a new file has mode \<open>0666\<close> less
  the bits of the umask, an existing file keeps its mode. Under umask \<open>022\<close> these are
  \<open>0700\<close> for a directory and \<open>0644\<close> (420) for a new file.
\<close>

theorem created_modes:
  "(createDir dir w = (None, w') \<longrightarrow>
      (\<exists>p. resolve (cwd w) dir = Some p \<and> map_of (fs w) p = None \<and>
           map_of (fs w') p = Some (Dir (448 AND NOT (umask w))) \<and>
           (448 AND NOT (umask w)) AND 63 = 0)) \<and>
   (createYAML marshal ob fname w = (None, w') \<longrightarrow>
      (\<exists>p raw m. resolve (cwd w) fname = Some p \<and> marshal ob = Inr raw \<and>
           map_of (fs w') p = Some (File m raw) \<and>
           (map_of (fs w) p = None \<longrightarrow> m = 438 AND NOT (umask w)) \<and>
           (\<forall>m0 old. map_of (fs w) p = Some (File m0 old) \<longrightarrow> m = m0))) \<and>
   (umask w = 18 \<longrightarrow> 448 AND NOT (umask w) = 448 \<and> 438 AND NOT (umask w) = 420)"
proof (intro conjI impI)
  assume "createDir dir w = (None, w')"
  from createDir_None [OF this] obtain p where
    "resolve (cwd w) dir = Some p" "map_of (fs w) p = None"
    "w' = w\<lparr>fs := fs_put p (Dir (448 AND NOT (umask w))) (fs w), trace := trace w @ [CreatedDir dir]\<rparr>"
    by blast
  then show "\<exists>p. resolve (cwd w) dir = Some p \<and> map_of (fs w) p = None \<and>
           map_of (fs w') p = Some (Dir (448 AND NOT (umask w))) \<and>
           (448 AND NOT (umask w)) AND 63 = 0"
    by (simp add: map_of_fs_put dir_mode_owner_only)
next
  assume "createYAML marshal ob fname w = (None, w')"
  from createYAML_None [OF this] obtain raw p dm n where
    r: "marshal ob = Inr raw" "resolve (cwd w) fname = Some p"
    and n: "(map_of (fs w) p = None \<and> owner_w dm \<and> n = File (438 AND NOT (umask w)) raw) \<or>
            (\<exists>fm old. map_of (fs w) p = Some (File fm old) \<and> owner_w fm \<and> n = File fm raw)"
    and w': "w' = w\<lparr>fs := fs_put p n (fs w), trace := trace w @ [CreatedYAML ob fname]\<rparr>"
    by blast
  from n obtain m where m: "n = File m raw" "map_of (fs w) p = None \<longrightarrow> m = 438 AND NOT (umask w)"
    "\<forall>m0 old. map_of (fs w) p = Some (File m0 old) \<longrightarrow> m = m0"
    by auto
  have "map_of (fs w') p = Some (File m raw)"
    unfolding w' by (simp add: map_of_fs_put m(1))
  with r m show "\<exists>p raw m. resolve (cwd w) fname = Some p \<and> marshal ob = Inr raw \<and>
           map_of (fs w') p = Some (File m raw) \<and>
           (map_of (fs w) p = None \<longrightarrow> m = 438 AND NOT (umask w)) \<and>
           (\<forall>m0 old. map_of (fs w) p = Some (File m0 old) \<longrightarrow> m = m0)"
    by (intro exI [of _ p] exI [of _ raw] exI [of _ m]) simp
next
  assume "umask w = 18"
  then show "448 AND NOT (umask w) = 448" "438 AND NOT (umask w) = 420" by simp_all
qed

theorem created_modes_witness:
  "createDir ''/tmp/etcd'' world0 = (None, snd (createDir ''/tmp/etcd'' world0)) \<and>
   resolve (cwd world0) ''/tmp/etcd'' = Some [''tmp'', ''etcd''] \<and>
   map_of (fs (snd (createDir ''/tmp/etcd'' world0))) [''tmp'', ''etcd''] = Some (Dir 448) \<and>
   createYAML doc_marshal (PackageObj ''packageName: etcd'') ''/tmp/etcd.package.yaml'' world0 =
     (None, snd (createYAML doc_marshal (PackageObj ''packageName: etcd'') ''/tmp/etcd.package.yaml'' world0)) \<and>
   map_of (fs (snd (createYAML doc_marshal (PackageObj ''packageName: etcd'') ''/tmp/etcd.package.yaml'' world0)))
      [''tmp'', ''etcd.package.yaml''] = Some (File 420 ''packageName: etcd'') \<and>
   umask world0 = 18"
proof -
  let ?d = "createDir ''/tmp/etcd'' world0"
  let ?y = "createYAML doc_marshal (PackageObj ''packageName: etcd'') ''/tmp/etcd.package.yaml'' world0"
  have h: "?d = (None, snd ?d)" "?y = (None, snd ?y)" "umask world0 = 18"
    by code_simp+
  have e: "resolve (cwd world0) ''/tmp/etcd'' = Some [''tmp'', ''etcd'']"
    "resolve (cwd world0) ''/tmp/etcd.package.yaml'' = Some [''tmp'', ''etcd.package.yaml'']"
    "map_of (fs world0) [''tmp'', ''etcd.package.yaml''] = None"
    by code_simp+
  from created_modes [of "''/tmp/etcd''" world0 "snd ?d" doc_marshal "PackageObj ''packageName: etcd''"
      "''/tmp/etcd.package.yaml''"] h(1,3) e(1)
  have 1: "map_of (fs (snd ?d)) [''tmp'', ''etcd''] = Some (Dir 448)"
    by auto
  from created_modes [of _ world0 "snd ?y" doc_marshal "PackageObj ''packageName: etcd''"
      "''/tmp/etcd.package.yaml''"] h(2,3) e(2,3)
  have 2: "map_of (fs (snd ?y)) [''tmp'', ''etcd.package.yaml''] = Some (File 420 ''packageName: etcd'')"
    by (auto simp: doc_marshal_def)
  from h e 1 2 show ?thesis by simp
qed



text \<open>
  C3. The claim says that a release with an unresolved owned reference fails with an
  error naming the key and the release. The bundle's steps run in order, and an earlier
  step can fail first: the release below has an unresolved reference and no version,
  and the error is the missing-version error.
\<close>

theorem unresolved_reference_counterexample:
  "csv_GetCustomResourceDefintions csv_dangling_noversion = Inr ([key_backups], []) \<and>
   build_crdMap (CustomResourceDefinitions (singleManifest (builder_etcd [csv_dangling_noversion])))
     key_backups = None \<and>
   createBundle doc_marshal (builder_etcd [csv_dangling_noversion]) csv_dangling_noversion world_root =
     (Some MissingVersion, world_root) \<and>
   MissingVersion \<noteq> OwnedCRDNotFound key_backups (csv_GetName csv_dangling_noversion)"
  by code_simp

text \<open>
  C3, amended. A release with an owned key that is not in the collection's table never
  materializes: \<open>createBundle\<close> fails and writes no release descriptor. When the
  release directory was created and the owned definitions before the key were written,
  the error names the key and the release, and nothing more is written.
\<close>

theorem unresolved_reference_fails:
  assumes "csv_GetCustomResourceDefintions csv = Inr (owned, required)"
    and "k \<in> set owned"
    and "build_crdMap (CustomResourceDefinitions (singleManifest b)) k = None"
  shows "\<exists>e w'. createBundle marshal b csv w = (Some e, w') \<and>
    (\<exists>evs. trace w' = trace w @ evs \<and> (\<forall>f. CreatedYAML (CSVObj csv) f \<notin> set evs)) \<and>
    (\<forall>d w1 pre post w2.
        createBundleDir b csv w = ((d, None), w1) \<and> owned = pre @ k # post \<and>
        createCRDYAMLs_loop marshal (build_crdMap (CustomResourceDefinitions (singleManifest b)))
          csv d pre w1 = (None, w2)
      \<longrightarrow> e = OwnedCRDNotFound k (csv_GetName csv) \<and> w' = w2)"
proof -
  let ?m = "build_crdMap (CustomResourceDefinitions (singleManifest b))"
  obtain d r1 w1 where s1: "createBundleDir b csv w = ((d, r1), w1)" by (metis surj_pair)
  have "\<exists>e w'. createBundle marshal b csv w = (Some e, w')"
  proof (cases r1)
    case (Some e1)
    with s1 show ?thesis by (simp add: createBundle_dir_failed)
  next
    case None
    with s1 have s1': "createBundleDir b csv w = ((d, None), w1)" by simp
    from createCRDYAMLs_loop_unresolved [where crdMap = ?m and marshal = marshal and csv = csv
        and dir = d and w = w1, OF assms(2,3)] obtain e2 w2 where
      "createCRDYAMLs_loop marshal ?m csv d owned w1 = (Some e2, w2)" by blast
    with assms(1) have "createCRDYAMLs marshal b csv d w1 = (Some e2, w2)"
      by (simp add: createCRDYAMLs_def)
    then show ?thesis by (simp add: createBundle_unfold [OF s1'])
  qed
  then obtain e w' where c: "createBundle marshal b csv w = (Some e, w')" by blast
  have t: "\<exists>evs. trace w' = trace w @ evs \<and> (\<forall>f. CreatedYAML (CSVObj csv) f \<notin> set evs)"
    using c by (rule createBundle_failure_trace)
  have n: "e = OwnedCRDNotFound k (csv_GetName csv) \<and> w' = w2"
    if h: "createBundleDir b csv w = ((d', None), w1') \<and> owned = pre @ k # post \<and>
        createCRDYAMLs_loop marshal ?m csv d' pre w1' = (None, w2)" for d' w1' pre post w2
  proof -
    from h have s: "createBundleDir b csv w = ((d', None), w1')" and o: "owned = pre @ k # post"
      and l: "createCRDYAMLs_loop marshal ?m csv d' pre w1' = (None, w2)" by simp_all
    have "createCRDYAMLs_loop marshal ?m csv d' owned w1' = (Some (OwnedCRDNotFound k (csv_GetName csv)), w2)"
      unfolding o createCRDYAMLs_loop_append l using assms(3) by simp
    with assms(1) have "createCRDYAMLs marshal b csv d' w1' = (Some (OwnedCRDNotFound k (csv_GetName csv)), w2)"
      by (simp add: createCRDYAMLs_def)
    then have "createBundle marshal b csv w = (Some (OwnedCRDNotFound k (csv_GetName csv)), w2)"
      by (simp add: createBundle_unfold [OF s])
    with c show ?thesis by simp
  qed
  from c t n show ?thesis by blast
qed

theorem unresolved_reference_fails_witness:
  "csv_GetCustomResourceDefintions csv_dangling = Inr ([key_backups], []) \<and>
   key_backups \<in> set [key_backups] \<and>
   build_crdMap (CustomResourceDefinitions (singleManifest (builder_etcd [csv_dangling]))) key_backups = None \<and>
   createBundleDir (builder_etcd [csv_dangling]) csv_dangling world_root =
     ((''/tmp/etcd/0.9.0'', None), snd (createBundleDir (builder_etcd [csv_dangling]) csv_dangling world_root)) \<and>
   createBundle doc_marshal (builder_etcd [csv_dangling]) csv_dangling world_root =
     (Some (OwnedCRDNotFound key_backups ''etcdoperator.v0.9.0''),
      snd (createBundleDir (builder_etcd [csv_dangling]) csv_dangling world_root))"
proof -
  let ?b = "builder_etcd [csv_dangling]"
  let ?w1 = "snd (createBundleDir ?b csv_dangling world_root)"
  have h: "csv_GetCustomResourceDefintions csv_dangling = Inr ([key_backups], [])"
    "key_backups \<in> set [key_backups]"
    "build_crdMap (CustomResourceDefinitions (singleManifest ?b)) key_backups = None"
    by code_simp+
  have d: "createBundleDir ?b csv_dangling world_root = ((''/tmp/etcd/0.9.0'', None), ?w1)"
    and nm: "csv_GetName csv_dangling = ''etcdoperator.v0.9.0''"
    by code_simp+
  from unresolved_reference_fails [OF h, of doc_marshal world_root] obtain e w' where
    c: "createBundle doc_marshal ?b csv_dangling world_root = (Some e, w')"
    and a: "\<forall>d w1 pre post w2.
        createBundleDir ?b csv_dangling world_root = ((d, None), w1) \<and> [key_backups] = pre @ key_backups # post \<and>
        createCRDYAMLs_loop doc_marshal (build_crdMap (CustomResourceDefinitions (singleManifest ?b)))
          csv_dangling d pre w1 = (None, w2)
      \<longrightarrow> e = OwnedCRDNotFound key_backups (csv_GetName csv_dangling) \<and> w' = w2"
    by blast
  from a [rule_format, of "''/tmp/etcd/0.9.0''" ?w1 "[]" "[]" ?w1] d
  have "e = OwnedCRDNotFound key_backups (csv_GetName csv_dangling) \<and> w' = ?w1" by simp
  with c h d nm show ?thesis by simp
qed




end
